theory Spec2Isabelle
  imports Main "HOL-Library.Word"
begin

section \<open>The SCC validation webhook (pkg/webhooks/scc/scc.go)\<close>

text \<open>
  The package decides admission requests on SecurityContextConstraints objects. This
  theory embeds its functions one by one: \<open>renderSCC\<close>, \<open>isDefaultSCC\<close>,
  \<open>isSCCwithHigherPriority\<close>, \<open>authorized\<close>, \<open>Validate\<close> and \<open>Doc\<close>, with the package
  variables \<open>anyuidPriority\<close> and \<open>defaultSCCs\<close>.
\<close>

subsection \<open>Data\<close>

type_synonym int32 = "32 word"
type_synonym bytes = "8 word list"

text \<open>
  A Go \<open>error\<close> value, as far as the package observes it: the text \<open>err.Error()\<close>
  returns. The nil error is \<open>None\<close> of \<open>error option\<close>.
\<close>

datatype error = Error string

fun Error_text :: "error \<Rightarrow> string" where
  "Error_text (Error m) = m"

text \<open>
  \<open>securityv1.SecurityContextConstraints\<close>, with the two fields the package reads:
  \<open>Name\<close> (of the embedded object metadata) and \<open>Priority\<close>, a \<open>*int32\<close> whose
  nil is \<open>None\<close>.
\<close>

record SecurityContextConstraints =
  Name :: string
  Priority :: "int32 option"

text \<open>The value of \<open>&securityv1.SecurityContextConstraints{}\<close>.\<close>

definition zeroSCC :: SecurityContextConstraints where
  "zeroSCC = \<lparr>Name = [], Priority = None\<rparr>"

text \<open>
  \<open>admissionctl.Request\<close>, with the fields the package reads: \<open>AdmissionRequest.UID\<close>,
  \<open>Kind.Kind\<close>, \<open>Operation\<close> (a Go string type), \<open>UserInfo.Username\<close>, and the bytes
  \<open>Object.Raw\<close> and \<open>OldObject.Raw\<close>.
\<close>

record Request =
  UID :: string
  Kind :: string
  Operation :: string
  Username :: string
  Object :: bytes
  OldObject :: bytes

text \<open>The operation constants of \<open>k8s.io/api/admission/v1\<close>.\<close>

definition Create :: string where "Create = ''CREATE''"
definition Update :: string where "Update = ''UPDATE''"
definition Delete :: string where "Delete = ''DELETE''"
definition Connect :: string where "Connect = ''CONNECT''"

text \<open>
  \<open>admissionctl.Response\<close>: the \<open>UID\<close> and \<open>Allowed\<close> fields of the embedded
  \<open>AdmissionResponse\<close> and its \<open>Result\<close>, a pointer to a \<open>metav1.Status\<close>.
\<close>

record Status =
  Code :: int32
  Reason :: string
  Message :: string

record Response =
  ResponseUID :: string
  ResponseAllowed :: bool
  Result :: "Status option"

definition StatusOK :: int32 where "StatusOK = 200"
definition StatusBadRequest :: int32 where "StatusBadRequest = 400"
definition StatusForbidden :: int32 where "StatusForbidden = 403"

text \<open>
  Modelled from the spec: the response constructors \<open>Allowed\<close>, \<open>Denied\<close> and \<open>Errored\<close>
  are imported from the admission library and are not part of the package source. The
  spec's decision has \<open>allowed\<close>, \<open>reason\<close> and \<open>uid\<close>, and a decode error is a rejected
  request, not a policy denial. The definitions below follow the library's constructors:
  a validation response has code 200 or 403 and stores a non-empty reason in
  \<open>Result.Reason\<close>; an errored response is not allowed, has the given code and stores the
  error text in \<open>Result.Message\<close>. None of them sets the UID.
\<close>

definition ValidationResponse :: "bool \<Rightarrow> string \<Rightarrow> Response" where
  "ValidationResponse allowed reason =
     \<lparr>ResponseUID = [],
      ResponseAllowed = allowed,
      Result = Some \<lparr>Code = (if allowed then StatusOK else StatusForbidden),
                     Reason = (if 0 < length reason then reason else []),
                     Message = []\<rparr>\<rparr>"

definition Allowed :: "string \<Rightarrow> Response" where
  "Allowed reason = ValidationResponse True reason"

definition Denied :: "string \<Rightarrow> Response" where
  "Denied reason = ValidationResponse False reason"

definition Errored :: "int32 \<Rightarrow> error \<Rightarrow> Response" where
  "Errored code err =
     \<lparr>ResponseUID = [],
      ResponseAllowed = False,
      Result = Some \<lparr>Code = code, Reason = [], Message = Error_text err\<rparr>\<rparr>"

text \<open>
  The library's decoder is a parameter of the model. \<open>decoder.DecodeRaw(raw, into)\<close>
  writes the object \<open>into\<close> points to and returns an error: here a function from the
  raw bytes and the object before the call to the object after it and the error.
  \<open>admissionctl.NewDecoder\<close> returns a decoder or an error.
\<close>

type_synonym Decoder = "bytes \<Rightarrow> SecurityContextConstraints \<Rightarrow> SecurityContextConstraints \<times> error option"

subsection \<open>Package variables\<close>

definition anyuidPriority :: int32 where
  "anyuidPriority = 10"

definition defaultSCCs :: "string list" where
  "defaultSCCs =
     [''anyuid'',
      ''hostaccess'',
      ''hostmount-anyuid'',
      ''hostnetwork'',
      ''node-exporter'',
      ''nonroot'',
      ''privileged'',
      ''restricted'',
      ''pipelines-scc'']"

subsection \<open>Formatting\<close>

text \<open>
  The package calls \<open>fmt.Sprintf\<close> with the verb \<open>%d\<close> on an \<open>int32\<close> and with the verb
  \<open>%s\<close> on a \<open>[]string\<close>. \<open>fmt_d\<close> is the decimal text of a signed 32-bit integer;
  \<open>fmt_s\<close> is the text of a string slice: its elements separated by one space, in
  square brackets. A call \<open>Sprintf(f, x)\<close> is embedded as the text of \<open>f\<close> before the
  verb, the text of \<open>x\<close>, and the text of \<open>f\<close> after the verb.
\<close>

fun decimal :: "nat \<Rightarrow> string" where
  "decimal n =
     (if n < 10 then [''0123456789'' ! n]
      else decimal (n div 10) @ [''0123456789'' ! (n mod 10)])"

declare decimal.simps [simp del]

definition fmt_d :: "int32 \<Rightarrow> string" where
  "fmt_d i = (if sint i < 0 then CHR ''-'' # decimal (nat (- sint i)) else decimal (nat (sint i)))"

fun spaced :: "string list \<Rightarrow> string" where
  "spaced [] = []"
| "spaced [x] = x"
| "spaced (x # y # ys) = x @ '' '' @ spaced (y # ys)"

definition fmt_s :: "string list \<Rightarrow> string" where
  "fmt_s xs = ''['' @ spaced xs @ '']''"

text \<open>The constant \<open>docString\<close>, as a function of the text put in place of its \<open>%s\<close>.\<close>

definition docString :: "string \<Rightarrow> string" where
  "docString s = ''Managed OpenShift Customers may not modify the following default SCCs: '' @ s"

subsection \<open>renderSCC\<close>

text \<open>
  The result \<open>(oldScc, newScc, err)\<close> is a sum: \<open>Inl err\<close> for \<open>(nil, nil, err)\<close>,
  \<open>Inr (oldScc, newScc)\<close> for a nil error. A payload is decoded only when it is not
  empty; the error is tested after each of the two steps.
\<close>

definition renderSCC ::
  "error + Decoder \<Rightarrow> Request \<Rightarrow> error + SecurityContextConstraints \<times> SecurityContextConstraints" where
  "renderSCC NewDecoder request =
     (case NewDecoder of
        Inl err \<Rightarrow> Inl err
      | Inr decoder \<Rightarrow>
          (case (if 0 < length (OldObject request) then decoder (OldObject request) zeroSCC
                 else (zeroSCC, None)) of
             (oldScc, Some err) \<Rightarrow> Inl err
           | (oldScc, None) \<Rightarrow>
               (case (if 0 < length (Object request) then decoder (Object request) zeroSCC
                      else (zeroSCC, None)) of
                  (newScc, Some err) \<Rightarrow> Inl err
                | (newScc, None) \<Rightarrow> Inr (oldScc, newScc))))"

subsection \<open>isDefaultSCC and isSCCwithHigherPriority\<close>

text \<open>The loop of \<open>isDefaultSCC\<close> over a slice of names, and the function on \<open>defaultSCCs\<close>.\<close>

fun isDefaultSCC_range :: "SecurityContextConstraints \<Rightarrow> string list \<Rightarrow> bool" where
  "isDefaultSCC_range scc [] = False"
| "isDefaultSCC_range scc (s # ss) = (if Name scc = s then True else isDefaultSCC_range scc ss)"

definition isDefaultSCC :: "SecurityContextConstraints \<Rightarrow> bool" where
  "isDefaultSCC scc = isDefaultSCC_range scc defaultSCCs"

text \<open>The comparison \<open>*scc.Priority > anyuidPriority\<close> is one of signed 32-bit integers.\<close>

definition isSCCwithHigherPriority :: "SecurityContextConstraints \<Rightarrow> bool" where
  "isSCCwithHigherPriority scc =
     (case Priority scc of
        None \<Rightarrow> False
      | Some p \<Rightarrow> (if anyuidPriority <s p then True else False))"

subsection \<open>authorized\<close>

text \<open>
  The switch on the operation compares strings; a case whose test fails leaves the switch
  and reaches the final \<open>Allowed\<close>. Every branch after the decoding sets the UID of the
  response; the branch of a decoding error returns the errored response as it is.
\<close>

definition authorized :: "error + Decoder \<Rightarrow> Request \<Rightarrow> Response" where
  "authorized NewDecoder request =
     (case renderSCC NewDecoder request of
        Inl err \<Rightarrow> Errored StatusBadRequest err
      | Inr (oldScc, newScc) \<Rightarrow>
          (if Operation request = Delete then
             (if isDefaultSCC oldScc then
                (Denied ''Deleting default SCCs is not allowed'')\<lparr>ResponseUID := UID request\<rparr>
              else (Allowed ''Request is allowed'')\<lparr>ResponseUID := UID request\<rparr>)
           else if Operation request = Create then
             (if isSCCwithHigherPriority newScc then
                (Denied (''Creating SCC with priority higher than '' @ fmt_d anyuidPriority
                           @ '' is not allowed''))\<lparr>ResponseUID := UID request\<rparr>
              else (Allowed ''Request is allowed'')\<lparr>ResponseUID := UID request\<rparr>)
           else if Operation request = Update then
             (if isDefaultSCC oldScc then
                (Denied ''Modifying default SCCs is not allowed'')\<lparr>ResponseUID := UID request\<rparr>
              else if isSCCwithHigherPriority newScc then
                (Denied (''Updating SCC with priority higher than '' @ fmt_d anyuidPriority
                           @ '' is not allowed''))\<lparr>ResponseUID := UID request\<rparr>
              else (Allowed ''Request is allowed'')\<lparr>ResponseUID := UID request\<rparr>)
           else (Allowed ''Request is allowed'')\<lparr>ResponseUID := UID request\<rparr>))"

subsection \<open>Validate and Doc\<close>

definition Validate :: "Request \<Rightarrow> bool" where
  "Validate request =
     (let valid = True;
          valid = (valid \<and> Username request \<noteq> []);
          valid = (valid \<and> Kind request = ''SecurityContextConstraint'')
      in valid)"

definition Doc :: string where
  "Doc = docString (fmt_s defaultSCCs)"

subsection \<open>Reading the documentation string\<close>

text \<open>
  The names a documentation string lists: the text between its square brackets, cut at
  the spaces. This is the reader's side of \<open>Doc\<close>, not a function of the package.
\<close>

fun split_on :: "char \<Rightarrow> string \<Rightarrow> string list" where
  "split_on c [] = [[]]"
| "split_on c (x # xs) =
     (if x = c then [] # split_on c xs
      else (case split_on c xs of
              [] \<Rightarrow> [[x]]
            | w # ws \<Rightarrow> (x # w) # ws))"

definition listed_names :: "string \<Rightarrow> string list" where
  "listed_names doc =
     split_on CHR '' ''
       (takeWhile (\<lambda>c. c \<noteq> CHR '']'') (tl (dropWhile (\<lambda>c. c \<noteq> CHR ''['') doc)))"

subsection \<open>Decoders for concrete requests\<close>

text \<open>
  A decoder given by a finite table from payloads to objects: a payload of the table
  decodes to its object, any other payload is an error and leaves the object as it was.
\<close>

definition tableDecoder :: "(bytes \<times> SecurityContextConstraints) list \<Rightarrow> Decoder" where
  "tableDecoder t raw into =
     (case map_of t raw of
        Some scc \<Rightarrow> (scc, None)
      | None \<Rightarrow> (into, Some (Error ''unexpected end of JSON input'')))"

section \<open>Properties\<close>

subsection \<open>Formatting and the two predicates\<close>

text \<open>The ceiling prints as \<open>10\<close>, so the two priority reasons are fixed texts.\<close>

lemma decimal_10: "decimal 10 = ''10''"
  by code_simp

lemma fmt_d_anyuidPriority: "fmt_d anyuidPriority = ''10''"
  by (simp add: fmt_d_def anyuidPriority_def decimal_10)

text \<open>The loop of \<open>isDefaultSCC\<close> is membership in the slice it ranges over.\<close>

lemma isDefaultSCC_range_iff: "isDefaultSCC_range scc ss \<longleftrightarrow> Name scc \<in> set ss"
  by (induction ss) auto

lemma isDefaultSCC_iff: "isDefaultSCC scc \<longleftrightarrow> Name scc \<in> set defaultSCCs"
  by (simp add: isDefaultSCC_def isDefaultSCC_range_iff)

text \<open>The signed comparison, read on the integers.\<close>

lemma isSCCwithHigherPriority_iff:
  "isSCCwithHigherPriority scc \<longleftrightarrow> (\<exists>p. Priority scc = Some p \<and> 10 < sint p)"
  by (auto simp: isSCCwithHigherPriority_def anyuidPriority_def word_sless_alt split: option.splits)

subsection \<open>Responses\<close>

text \<open>The fields of the three kinds of response the package returns.\<close>

lemma Denied_response:
  "(Denied reason)\<lparr>ResponseUID := uid\<rparr> =
     \<lparr>ResponseUID = uid, ResponseAllowed = False,
      Result = Some \<lparr>Code = 403, Reason = reason, Message = []\<rparr>\<rparr>"
  by (simp add: Denied_def ValidationResponse_def StatusForbidden_def)

lemma Allowed_response:
  "(Allowed reason)\<lparr>ResponseUID := uid\<rparr> =
     \<lparr>ResponseUID = uid, ResponseAllowed = True,
      Result = Some \<lparr>Code = 200, Reason = reason, Message = []\<rparr>\<rparr>"
  by (simp add: Allowed_def ValidationResponse_def StatusOK_def)

lemma Errored_response:
  "Errored StatusBadRequest (Error m) =
     \<lparr>ResponseUID = [], ResponseAllowed = False,
      Result = Some \<lparr>Code = 400, Reason = [], Message = m\<rparr>\<rparr>"
  by (simp add: Errored_def StatusBadRequest_def)

lemma Denied_neq_Allowed: "(Denied r)\<lparr>ResponseUID := u\<rparr> \<noteq> (Allowed r')\<lparr>ResponseUID := u'\<rparr>"
  by (simp add: Denied_def Allowed_def ValidationResponse_def)

lemma Errored_neq_ValidationResponse:
  "Errored StatusBadRequest err \<noteq> (ValidationResponse allowed reason)\<lparr>ResponseUID := uid\<rparr>"
  by (simp add: Errored_def ValidationResponse_def StatusBadRequest_def StatusOK_def StatusForbidden_def)

subsection \<open>renderSCC\<close>

text \<open>
  With a decoder at hand, \<open>renderSCC\<close> in terms of the two decoding steps; and
  \<open>renderSCC\<close> reads nothing of the request but its two payloads.
\<close>

lemma renderSCC_decoder:
  "renderSCC (Inr decoder) request =
     (case (if OldObject request \<noteq> [] then snd (decoder (OldObject request) zeroSCC) else None) of
        Some err \<Rightarrow> Inl err
      | None \<Rightarrow>
          (case (if Object request \<noteq> [] then snd (decoder (Object request) zeroSCC) else None) of
             Some err \<Rightarrow> Inl err
           | None \<Rightarrow>
               Inr (if OldObject request \<noteq> [] then fst (decoder (OldObject request) zeroSCC)
                    else zeroSCC,
                    if Object request \<noteq> [] then fst (decoder (Object request) zeroSCC)
                    else zeroSCC)))"
  by (cases "decoder (OldObject request) zeroSCC"; cases "decoder (Object request) zeroSCC")
     (auto simp add: renderSCC_def split: option.splits)

lemma renderSCC_payloads:
  "Object r1 = Object r2 \<Longrightarrow> OldObject r1 = OldObject r2 \<Longrightarrow>
     renderSCC NewDecoder r1 = renderSCC NewDecoder r2"
  by (simp add: renderSCC_def split: sum.splits)

subsection \<open>authorized, by cases\<close>

text \<open>
  The response after a successful decoding, with the two predicates replaced by what
  they test; and the response after a failed one.
\<close>

lemma ops_distinct: "Create \<noteq> Delete" "Update \<noteq> Delete" "Update \<noteq> Create"
  by (simp_all add: Create_def Update_def Delete_def)

lemma authorized_decoded:
  assumes "renderSCC NewDecoder request = Inr (oldScc, newScc)"
  shows "authorized NewDecoder request =
     (if Operation request = Delete then
        (if Name oldScc \<in> set defaultSCCs then
           (Denied ''Deleting default SCCs is not allowed'')\<lparr>ResponseUID := UID request\<rparr>
         else (Allowed ''Request is allowed'')\<lparr>ResponseUID := UID request\<rparr>)
      else if Operation request = Create then
        (if (\<exists>p. Priority newScc = Some p \<and> 10 < sint p) then
           (Denied ''Creating SCC with priority higher than 10 is not allowed'')\<lparr>ResponseUID := UID request\<rparr>
         else (Allowed ''Request is allowed'')\<lparr>ResponseUID := UID request\<rparr>)
      else if Operation request = Update then
        (if Name oldScc \<in> set defaultSCCs then
           (Denied ''Modifying default SCCs is not allowed'')\<lparr>ResponseUID := UID request\<rparr>
         else if (\<exists>p. Priority newScc = Some p \<and> 10 < sint p) then
           (Denied ''Updating SCC with priority higher than 10 is not allowed'')\<lparr>ResponseUID := UID request\<rparr>
         else (Allowed ''Request is allowed'')\<lparr>ResponseUID := UID request\<rparr>)
      else (Allowed ''Request is allowed'')\<lparr>ResponseUID := UID request\<rparr>)"
proof -
  have "authorized NewDecoder request =
     (if Operation request = Delete then
        (if isDefaultSCC oldScc then
           (Denied ''Deleting default SCCs is not allowed'')\<lparr>ResponseUID := UID request\<rparr>
         else (Allowed ''Request is allowed'')\<lparr>ResponseUID := UID request\<rparr>)
      else if Operation request = Create then
        (if isSCCwithHigherPriority newScc then
           (Denied ''Creating SCC with priority higher than 10 is not allowed'')\<lparr>ResponseUID := UID request\<rparr>
         else (Allowed ''Request is allowed'')\<lparr>ResponseUID := UID request\<rparr>)
      else if Operation request = Update then
        (if isDefaultSCC oldScc then
           (Denied ''Modifying default SCCs is not allowed'')\<lparr>ResponseUID := UID request\<rparr>
         else if isSCCwithHigherPriority newScc then
           (Denied ''Updating SCC with priority higher than 10 is not allowed'')\<lparr>ResponseUID := UID request\<rparr>
         else (Allowed ''Request is allowed'')\<lparr>ResponseUID := UID request\<rparr>)
      else (Allowed ''Request is allowed'')\<lparr>ResponseUID := UID request\<rparr>)"
    by (simp add: authorized_def assms fmt_d_anyuidPriority)
  then show ?thesis
    by (simp only: isDefaultSCC_iff isSCCwithHigherPriority_iff)
qed

lemma authorized_failed:
  "renderSCC NewDecoder request = Inl err \<Longrightarrow>
     authorized NewDecoder request = Errored StatusBadRequest err"
  by (simp add: authorized_def)

section \<open>The claims\<close>

text \<open>
  C1: the UID of the response. The claim is that every response carries the UID of its
  request, also after a decoding failure. In the code the response carries the UID of the
  request exactly when \<open>renderSCC\<close> succeeds; when \<open>renderSCC\<close> returns an error, the
  response is the errored response, whose UID is empty. The instance below is a Create
  request with UID \<open>705ab4f5-6393-11e8-b7cc-42010a800002\<close> whose object is the single
  byte of an opening brace, which does not decode.
\<close>

theorem authorized_uid:
  "ResponseUID (authorized NewDecoder request) =
     (case renderSCC NewDecoder request of Inl err \<Rightarrow> [] | Inr sccs \<Rightarrow> UID request)"
  by (simp add: authorized_def Errored_def split: sum.splits prod.splits)

theorem authorized_uid_witness:
  "renderSCC (Inr (tableDecoder []))
       \<lparr>UID = ''705ab4f5-6393-11e8-b7cc-42010a800002'', Kind = ''SecurityContextConstraints'',
        Operation = ''CREATE'', Username = ''alice'', Object = [123], OldObject = []\<rparr>
     = Inl (Error ''unexpected end of JSON input'')
   \<and> ResponseUID (authorized (Inr (tableDecoder []))
       \<lparr>UID = ''705ab4f5-6393-11e8-b7cc-42010a800002'', Kind = ''SecurityContextConstraints'',
        Operation = ''CREATE'', Username = ''alice'', Object = [123], OldObject = []\<rparr>) = []
   \<and> ResponseUID (authorized (Inr (tableDecoder []))
       \<lparr>UID = ''705ab4f5-6393-11e8-b7cc-42010a800002'', Kind = ''SecurityContextConstraints'',
        Operation = ''CREATE'', Username = ''alice'', Object = [123], OldObject = []\<rparr>)
     \<noteq> UID \<lparr>UID = ''705ab4f5-6393-11e8-b7cc-42010a800002'', Kind = ''SecurityContextConstraints'',
        Operation = ''CREATE'', Username = ''alice'', Object = [123], OldObject = []\<rparr>"
proof -
  let ?req = "\<lparr>UID = ''705ab4f5-6393-11e8-b7cc-42010a800002'', Kind = ''SecurityContextConstraints'',
        Operation = ''CREATE'', Username = ''alice'', Object = [123], OldObject = []\<rparr>"
  have r: "renderSCC (Inr (tableDecoder [])) ?req
     = Inl (Error ''unexpected end of JSON input'')"
    by (simp add: renderSCC_def tableDecoder_def)
  show ?thesis
    using r authorized_uid [of "Inr (tableDecoder [])" ?req] by simp
qed

text \<open>
  C2: for an Update request whose payloads decode, the checks run in this order: if the
  name of the prior SCC is in \<open>defaultSCCs\<close>, the request is denied with the reason
  "Modifying default SCCs is not allowed", whatever the proposed priority; otherwise it
  is denied with the reason "Updating SCC with priority higher than 10 is not allowed"
  if and only if the proposed SCC has a priority and it is greater than 10; otherwise it
  is allowed. The instance is the update of \<open>restricted\<close> with the proposed priority 5.
\<close>

theorem update_checks_in_order:
  assumes "Operation request = Update"
    and "renderSCC NewDecoder request = Inr (oldScc, newScc)"
  shows "authorized NewDecoder request =
       (if Name oldScc \<in> set defaultSCCs then
          (Denied ''Modifying default SCCs is not allowed'')\<lparr>ResponseUID := UID request\<rparr>
        else if (\<exists>p. Priority newScc = Some p \<and> 10 < sint p) then
          (Denied ''Updating SCC with priority higher than 10 is not allowed'')\<lparr>ResponseUID := UID request\<rparr>
        else (Allowed ''Request is allowed'')\<lparr>ResponseUID := UID request\<rparr>)
     \<and> (authorized NewDecoder request =
          (Denied ''Modifying default SCCs is not allowed'')\<lparr>ResponseUID := UID request\<rparr>
        \<longleftrightarrow> Name oldScc \<in> set defaultSCCs)
     \<and> (authorized NewDecoder request =
          (Denied ''Updating SCC with priority higher than 10 is not allowed'')\<lparr>ResponseUID := UID request\<rparr>
        \<longleftrightarrow> Name oldScc \<notin> set defaultSCCs \<and> (\<exists>p. Priority newScc = Some p \<and> 10 < sint p))"
proof -
  have a: "authorized NewDecoder request =
       (if Name oldScc \<in> set defaultSCCs then
          (Denied ''Modifying default SCCs is not allowed'')\<lparr>ResponseUID := UID request\<rparr>
        else if (\<exists>p. Priority newScc = Some p \<and> 10 < sint p) then
          (Denied ''Updating SCC with priority higher than 10 is not allowed'')\<lparr>ResponseUID := UID request\<rparr>
        else (Allowed ''Request is allowed'')\<lparr>ResponseUID := UID request\<rparr>)"
    using assms ops_distinct by (simp add: authorized_decoded)
  have d: "(Denied ''Modifying default SCCs is not allowed'')\<lparr>ResponseUID := UID request\<rparr>
      \<noteq> (Denied ''Updating SCC with priority higher than 10 is not allowed'')\<lparr>ResponseUID := UID request\<rparr>"
    by (simp add: Denied_response)
  show ?thesis
    unfolding a using d Denied_neq_Allowed [symmetric] Denied_neq_Allowed by auto
qed

theorem update_checks_in_order_witness:
  "Operation \<lparr>UID = ''u-1'', Kind = ''SecurityContextConstraints'', Operation = ''UPDATE'',
       Username = ''alice'', Object = [2], OldObject = [1]\<rparr> = Update
   \<and> renderSCC (Inr (tableDecoder [([1], \<lparr>Name = ''restricted'', Priority = None\<rparr>),
                                    ([2], \<lparr>Name = ''restricted'', Priority = Some 5\<rparr>)]))
       \<lparr>UID = ''u-1'', Kind = ''SecurityContextConstraints'', Operation = ''UPDATE'',
        Username = ''alice'', Object = [2], OldObject = [1]\<rparr>
     = Inr (\<lparr>Name = ''restricted'', Priority = None\<rparr>, \<lparr>Name = ''restricted'', Priority = Some 5\<rparr>)
   \<and> authorized (Inr (tableDecoder [([1], \<lparr>Name = ''restricted'', Priority = None\<rparr>),
                                    ([2], \<lparr>Name = ''restricted'', Priority = Some 5\<rparr>)]))
       \<lparr>UID = ''u-1'', Kind = ''SecurityContextConstraints'', Operation = ''UPDATE'',
        Username = ''alice'', Object = [2], OldObject = [1]\<rparr>
     = (Denied ''Modifying default SCCs is not allowed'')\<lparr>ResponseUID := ''u-1''\<rparr>"
proof -
  let ?dec = "tableDecoder [([1], \<lparr>Name = ''restricted'', Priority = None\<rparr>),
                            ([2], \<lparr>Name = ''restricted'', Priority = Some 5\<rparr>)]"
  let ?req = "\<lparr>UID = ''u-1'', Kind = ''SecurityContextConstraints'', Operation = ''UPDATE'',
        Username = ''alice'', Object = [2], OldObject = [1]\<rparr>"
  have op: "Operation ?req = Update" by (simp add: Update_def)
  have r: "renderSCC (Inr ?dec) ?req
     = Inr (\<lparr>Name = ''restricted'', Priority = None\<rparr>, \<lparr>Name = ''restricted'', Priority = Some 5\<rparr>)"
    by (simp add: renderSCC_def tableDecoder_def)
  show ?thesis
    using op r update_checks_in_order [OF op r] by (simp add: defaultSCCs_def)
qed

text \<open>
  C3: for a Create request whose payloads decode, the request is denied with the reason
  "Creating SCC with priority higher than 10 is not allowed" if and only if the proposed
  SCC has a priority and it is greater than 10 as a signed integer; otherwise it is
  allowed. In particular the priority 10 and the absent priority are allowed, and the
  priority 11 is denied. The instance is the creation of \<open>custom\<close> with priority 15.
\<close>

theorem create_priority_ceiling:
  assumes "Operation request = Create"
    and "renderSCC NewDecoder request = Inr (oldScc, newScc)"
  shows "authorized NewDecoder request =
       (if (\<exists>p. Priority newScc = Some p \<and> 10 < sint p) then
          (Denied ''Creating SCC with priority higher than 10 is not allowed'')\<lparr>ResponseUID := UID request\<rparr>
        else (Allowed ''Request is allowed'')\<lparr>ResponseUID := UID request\<rparr>)
     \<and> (authorized NewDecoder request =
          (Denied ''Creating SCC with priority higher than 10 is not allowed'')\<lparr>ResponseUID := UID request\<rparr>
        \<longleftrightarrow> (\<exists>p. Priority newScc = Some p \<and> 10 < sint p))
     \<and> (Priority newScc = Some 10 \<or> Priority newScc = None \<longrightarrow>
          authorized NewDecoder request = (Allowed ''Request is allowed'')\<lparr>ResponseUID := UID request\<rparr>)
     \<and> (Priority newScc = Some 11 \<longrightarrow>
          authorized NewDecoder request =
            (Denied ''Creating SCC with priority higher than 10 is not allowed'')\<lparr>ResponseUID := UID request\<rparr>)"
  using assms ops_distinct by (auto simp add: authorized_decoded Denied_neq_Allowed [symmetric])

theorem create_priority_ceiling_witness:
  "Operation \<lparr>UID = ''u-2'', Kind = ''SecurityContextConstraints'', Operation = ''CREATE'',
       Username = ''alice'', Object = [2], OldObject = []\<rparr> = Create
   \<and> renderSCC (Inr (tableDecoder [([2], \<lparr>Name = ''custom'', Priority = Some 15\<rparr>)]))
       \<lparr>UID = ''u-2'', Kind = ''SecurityContextConstraints'', Operation = ''CREATE'',
        Username = ''alice'', Object = [2], OldObject = []\<rparr>
     = Inr (zeroSCC, \<lparr>Name = ''custom'', Priority = Some 15\<rparr>)
   \<and> authorized (Inr (tableDecoder [([2], \<lparr>Name = ''custom'', Priority = Some 15\<rparr>)]))
       \<lparr>UID = ''u-2'', Kind = ''SecurityContextConstraints'', Operation = ''CREATE'',
        Username = ''alice'', Object = [2], OldObject = []\<rparr>
     = (Denied ''Creating SCC with priority higher than 10 is not allowed'')\<lparr>ResponseUID := ''u-2''\<rparr>"
proof -
  let ?dec = "tableDecoder [([2], \<lparr>Name = ''custom'', Priority = Some 15\<rparr>)]"
  let ?req = "\<lparr>UID = ''u-2'', Kind = ''SecurityContextConstraints'', Operation = ''CREATE'',
        Username = ''alice'', Object = [2], OldObject = []\<rparr>"
  have op: "Operation ?req = Create" by (simp add: Create_def)
  have r: "renderSCC (Inr ?dec) ?req = Inr (zeroSCC, \<lparr>Name = ''custom'', Priority = Some 15\<rparr>)"
    by (simp add: renderSCC_def tableDecoder_def)
  show ?thesis
    using op r create_priority_ceiling [OF op r] by simp
qed

text \<open>
  C4: for a Delete request whose payloads decode, the request is denied with the reason
  "Deleting default SCCs is not allowed" if and only if the name of the prior SCC is in
  \<open>defaultSCCs\<close>; for any other name it is allowed. The instance is the deletion of
  \<open>custom\<close>.
\<close>

theorem delete_default_denied:
  assumes "Operation request = Delete"
    and "renderSCC NewDecoder request = Inr (oldScc, newScc)"
  shows "authorized NewDecoder request =
       (if Name oldScc \<in> set defaultSCCs then
          (Denied ''Deleting default SCCs is not allowed'')\<lparr>ResponseUID := UID request\<rparr>
        else (Allowed ''Request is allowed'')\<lparr>ResponseUID := UID request\<rparr>)
     \<and> (authorized NewDecoder request =
          (Denied ''Deleting default SCCs is not allowed'')\<lparr>ResponseUID := UID request\<rparr>
        \<longleftrightarrow> Name oldScc \<in> set defaultSCCs)"
  using assms by (auto simp add: authorized_decoded Denied_neq_Allowed [symmetric])

theorem delete_default_denied_witness:
  "Operation \<lparr>UID = ''u-3'', Kind = ''SecurityContextConstraints'', Operation = ''DELETE'',
       Username = ''alice'', Object = [], OldObject = [1]\<rparr> = Delete
   \<and> renderSCC (Inr (tableDecoder [([1], \<lparr>Name = ''custom'', Priority = None\<rparr>)]))
       \<lparr>UID = ''u-3'', Kind = ''SecurityContextConstraints'', Operation = ''DELETE'',
        Username = ''alice'', Object = [], OldObject = [1]\<rparr>
     = Inr (\<lparr>Name = ''custom'', Priority = None\<rparr>, zeroSCC)
   \<and> authorized (Inr (tableDecoder [([1], \<lparr>Name = ''custom'', Priority = None\<rparr>)]))
       \<lparr>UID = ''u-3'', Kind = ''SecurityContextConstraints'', Operation = ''DELETE'',
        Username = ''alice'', Object = [], OldObject = [1]\<rparr>
     = (Allowed ''Request is allowed'')\<lparr>ResponseUID := ''u-3''\<rparr>"
proof -
  let ?dec = "tableDecoder [([1], \<lparr>Name = ''custom'', Priority = None\<rparr>)]"
  let ?req = "\<lparr>UID = ''u-3'', Kind = ''SecurityContextConstraints'', Operation = ''DELETE'',
        Username = ''alice'', Object = [], OldObject = [1]\<rparr>"
  have op: "Operation ?req = Delete" by (simp add: Delete_def)
  have r: "renderSCC (Inr ?dec) ?req = Inr (\<lparr>Name = ''custom'', Priority = None\<rparr>, zeroSCC)"
    by (simp add: renderSCC_def tableDecoder_def)
  show ?thesis
    using op r delete_default_denied [OF op r] by (simp add: defaultSCCs_def)
qed

text \<open>
  C5: \<open>Validate\<close> holds of a request if and only if its user name is not empty and
  its kind is the string \<open>SecurityContextConstraint\<close>.
\<close>

theorem Validate_iff:
  "Validate request \<longleftrightarrow>
     Username request \<noteq> [] \<and> Kind request = ''SecurityContextConstraint''"
  by (simp add: Validate_def)

text \<open>
  C6: when a payload that is not empty fails to decode, \<open>renderSCC\<close> returns the error
  of the first failing step, and \<open>authorized\<close> returns the errored response with code
  400 and that error. This response is no validation response (neither allowed nor
  denied, whatever the reason and the UID), and it is the same for every operation: no
  check of the policy takes part in it. The instance is an Update whose prior object
  decodes to \<open>restricted\<close> and whose proposed object does not decode: the response is
  the error, not the denial for a default SCC.
\<close>

theorem decode_error_short_circuits:
  assumes "NewDecoder = Inr decoder"
    and "(OldObject request \<noteq> [] \<and> snd (decoder (OldObject request) zeroSCC) \<noteq> None)
       \<or> (Object request \<noteq> [] \<and> snd (decoder (Object request) zeroSCC) \<noteq> None)"
  shows "\<exists>err. renderSCC NewDecoder request = Inl err
     \<and> Some err = (if OldObject request \<noteq> [] \<and> snd (decoder (OldObject request) zeroSCC) \<noteq> None
                   then snd (decoder (OldObject request) zeroSCC)
                   else snd (decoder (Object request) zeroSCC))
     \<and> authorized NewDecoder request = Errored StatusBadRequest err
     \<and> (\<forall>op. authorized NewDecoder (request\<lparr>Operation := op\<rparr>) = Errored StatusBadRequest err)
     \<and> (\<forall>allowed reason uid.
           authorized NewDecoder request \<noteq> (ValidationResponse allowed reason)\<lparr>ResponseUID := uid\<rparr>)"
proof -
  have "\<exists>err. renderSCC NewDecoder request = Inl err
     \<and> Some err = (if OldObject request \<noteq> [] \<and> snd (decoder (OldObject request) zeroSCC) \<noteq> None
                   then snd (decoder (OldObject request) zeroSCC)
                   else snd (decoder (Object request) zeroSCC))"
  proof (cases "OldObject request \<noteq> [] \<and> snd (decoder (OldObject request) zeroSCC) \<noteq> None")
    case True
    then obtain err where "snd (decoder (OldObject request) zeroSCC) = Some err"
      by blast
    with True assms(1) show ?thesis
      by (simp add: renderSCC_decoder)
  next
    case False
    with assms(2) obtain err where new: "Object request \<noteq> []"
        "snd (decoder (Object request) zeroSCC) = Some err"
      by blast
    from False have "(if OldObject request \<noteq> [] then snd (decoder (OldObject request) zeroSCC)
         else None) = None"
      by auto
    with False new assms(1) show ?thesis
      by (auto simp add: renderSCC_decoder)
  qed
  then obtain err where r: "renderSCC NewDecoder request = Inl err"
    and e: "Some err = (if OldObject request \<noteq> [] \<and> snd (decoder (OldObject request) zeroSCC) \<noteq> None
                   then snd (decoder (OldObject request) zeroSCC)
                   else snd (decoder (Object request) zeroSCC))"
    by blast
  have "renderSCC NewDecoder (request\<lparr>Operation := op\<rparr>) = Inl err" for op
    using r renderSCC_payloads [of "request\<lparr>Operation := op\<rparr>" request NewDecoder] by simp
  then have "authorized NewDecoder (request\<lparr>Operation := op\<rparr>) = Errored StatusBadRequest err" for op
    by (rule authorized_failed)
  moreover have "authorized NewDecoder request = Errored StatusBadRequest err"
    using r by (rule authorized_failed)
  ultimately show ?thesis
    using r e Errored_neq_ValidationResponse by auto
qed

theorem decode_error_short_circuits_witness:
  "renderSCC (Inr (tableDecoder [([1], \<lparr>Name = ''restricted'', Priority = None\<rparr>)]))
       \<lparr>UID = ''u-6'', Kind = ''SecurityContextConstraints'', Operation = ''UPDATE'',
        Username = ''alice'', Object = [123], OldObject = [1]\<rparr>
     = Inl (Error ''unexpected end of JSON input'')
   \<and> authorized (Inr (tableDecoder [([1], \<lparr>Name = ''restricted'', Priority = None\<rparr>)]))
       \<lparr>UID = ''u-6'', Kind = ''SecurityContextConstraints'', Operation = ''UPDATE'',
        Username = ''alice'', Object = [123], OldObject = [1]\<rparr>
     = Errored StatusBadRequest (Error ''unexpected end of JSON input'')
   \<and> authorized (Inr (tableDecoder [([1], \<lparr>Name = ''restricted'', Priority = None\<rparr>)]))
       \<lparr>UID = ''u-6'', Kind = ''SecurityContextConstraints'', Operation = ''UPDATE'',
        Username = ''alice'', Object = [123], OldObject = [1]\<rparr>
     \<noteq> (Denied ''Modifying default SCCs is not allowed'')\<lparr>ResponseUID := ''u-6''\<rparr>"
proof -
  let ?dec = "tableDecoder [([1], \<lparr>Name = ''restricted'', Priority = None\<rparr>)]"
  let ?req = "\<lparr>UID = ''u-6'', Kind = ''SecurityContextConstraints'', Operation = ''UPDATE'',
        Username = ''alice'', Object = [123], OldObject = [1]\<rparr>"
  have h: "(OldObject ?req \<noteq> [] \<and> snd (?dec (OldObject ?req) zeroSCC) \<noteq> None)
       \<or> (Object ?req \<noteq> [] \<and> snd (?dec (Object ?req) zeroSCC) \<noteq> None)"
    by (simp add: tableDecoder_def)
  have r: "renderSCC (Inr ?dec) ?req = Inl (Error ''unexpected end of JSON input'')"
    by (simp add: renderSCC_def tableDecoder_def)
  from decode_error_short_circuits [of "Inr ?dec" ?dec ?req, OF refl h]
  obtain err where "renderSCC (Inr ?dec) ?req = Inl err"
    and a: "authorized (Inr ?dec) ?req = Errored StatusBadRequest err"
    and n: "\<forall>allowed reason uid.
           authorized (Inr ?dec) ?req \<noteq> (ValidationResponse allowed reason)\<lparr>ResponseUID := uid\<rparr>"
    by blast
  with r have "err = Error ''unexpected end of JSON input''" by simp
  with a n r show ?thesis by (simp add: Denied_def)
qed

text \<open>
  C7: with a decoder at hand, an empty prior payload is not decoded: the prior SCC is the
  zero value and an error of \<open>renderSCC\<close> can only be that of the proposed payload; the
  same holds with the two payloads exchanged; with both payloads empty \<open>renderSCC\<close>
  returns two zero values. The zero value has the empty name and no priority, the empty
  name is not in \<open>defaultSCCs\<close>, and neither predicate holds of the zero value.
\<close>

theorem empty_payload_zero_record:
  assumes "NewDecoder = Inr decoder"
  shows "(OldObject request = [] \<longrightarrow>
            (\<forall>oldScc newScc. renderSCC NewDecoder request = Inr (oldScc, newScc) \<longrightarrow> oldScc = zeroSCC)
          \<and> (\<forall>err. renderSCC NewDecoder request = Inl err \<longrightarrow>
                Object request \<noteq> [] \<and> snd (decoder (Object request) zeroSCC) = Some err))
     \<and> (Object request = [] \<longrightarrow>
            (\<forall>oldScc newScc. renderSCC NewDecoder request = Inr (oldScc, newScc) \<longrightarrow> newScc = zeroSCC)
          \<and> (\<forall>err. renderSCC NewDecoder request = Inl err \<longrightarrow>
                OldObject request \<noteq> [] \<and> snd (decoder (OldObject request) zeroSCC) = Some err))
     \<and> (OldObject request = [] \<and> Object request = [] \<longrightarrow>
            renderSCC NewDecoder request = Inr (zeroSCC, zeroSCC))
     \<and> Name zeroSCC = [] \<and> Priority zeroSCC = None
     \<and> [] \<notin> set defaultSCCs \<and> \<not> isDefaultSCC zeroSCC \<and> \<not> isSCCwithHigherPriority zeroSCC"
  using assms
  by (auto simp add: renderSCC_decoder zeroSCC_def defaultSCCs_def isDefaultSCC_iff
        isSCCwithHigherPriority_iff split: option.splits if_splits)

theorem empty_payload_zero_record_witness:
  "OldObject \<lparr>UID = ''u-7'', Kind = ''SecurityContextConstraints'', Operation = ''CREATE'',
        Username = ''alice'', Object = [2], OldObject = []\<rparr> = []
   \<and> renderSCC (Inr (tableDecoder [([2], \<lparr>Name = ''custom'', Priority = Some 5\<rparr>)]))
       \<lparr>UID = ''u-7'', Kind = ''SecurityContextConstraints'', Operation = ''CREATE'',
        Username = ''alice'', Object = [2], OldObject = []\<rparr>
     = Inr (zeroSCC, \<lparr>Name = ''custom'', Priority = Some 5\<rparr>)
   \<and> renderSCC (Inr (tableDecoder []))
       \<lparr>UID = ''u-7'', Kind = ''SecurityContextConstraints'', Operation = ''CREATE'',
        Username = ''alice'', Object = [], OldObject = []\<rparr>
     = Inr (zeroSCC, zeroSCC)
   \<and> \<not> isDefaultSCC zeroSCC"
proof -
  let ?dec = "tableDecoder [([2], \<lparr>Name = ''custom'', Priority = Some 5\<rparr>)]"
  let ?req = "\<lparr>UID = ''u-7'', Kind = ''SecurityContextConstraints'', Operation = ''CREATE'',
        Username = ''alice'', Object = [2], OldObject = []\<rparr>"
  let ?none = "\<lparr>UID = ''u-7'', Kind = ''SecurityContextConstraints'', Operation = ''CREATE'',
        Username = ''alice'', Object = [], OldObject = []\<rparr>"
  note t = empty_payload_zero_record [of "Inr ?dec" ?dec ?req, OF refl]
  note t0 = empty_payload_zero_record [of "Inr (tableDecoder [])" "tableDecoder []" ?none, OF refl]
  have "renderSCC (Inr ?dec) ?req = Inr (zeroSCC, \<lparr>Name = ''custom'', Priority = Some 5\<rparr>)"
    by (simp add: renderSCC_def tableDecoder_def)
  moreover from t0 have "renderSCC (Inr (tableDecoder [])) ?none = Inr (zeroSCC, zeroSCC)"
    by simp
  moreover from t have "\<not> isDefaultSCC zeroSCC"
    by blast
  ultimately show ?thesis by simp
qed

text \<open>
  C8: a request whose operation is none of Create, Update and Delete, and whose payloads
  decode, is allowed, whatever the two SCCs are. The instance is a Connect request on
  \<open>restricted\<close> with the proposed priority 99.
\<close>

theorem other_operations_allowed:
  assumes "Operation request \<noteq> Create" and "Operation request \<noteq> Update"
    and "Operation request \<noteq> Delete"
    and "renderSCC NewDecoder request = Inr (oldScc, newScc)"
  shows "authorized NewDecoder request = (Allowed ''Request is allowed'')\<lparr>ResponseUID := UID request\<rparr>
     \<and> ResponseAllowed (authorized NewDecoder request)"
  using assms by (simp add: authorized_decoded Allowed_def ValidationResponse_def)

theorem other_operations_allowed_witness:
  "Operation \<lparr>UID = ''u-8'', Kind = ''SecurityContextConstraints'', Operation = Connect,
        Username = ''alice'', Object = [2], OldObject = [1]\<rparr> \<notin> {Create, Update, Delete}
   \<and> renderSCC (Inr (tableDecoder [([1], \<lparr>Name = ''restricted'', Priority = None\<rparr>),
                                    ([2], \<lparr>Name = ''restricted'', Priority = Some 99\<rparr>)]))
       \<lparr>UID = ''u-8'', Kind = ''SecurityContextConstraints'', Operation = Connect,
        Username = ''alice'', Object = [2], OldObject = [1]\<rparr>
     = Inr (\<lparr>Name = ''restricted'', Priority = None\<rparr>, \<lparr>Name = ''restricted'', Priority = Some 99\<rparr>)
   \<and> authorized (Inr (tableDecoder [([1], \<lparr>Name = ''restricted'', Priority = None\<rparr>),
                                    ([2], \<lparr>Name = ''restricted'', Priority = Some 99\<rparr>)]))
       \<lparr>UID = ''u-8'', Kind = ''SecurityContextConstraints'', Operation = Connect,
        Username = ''alice'', Object = [2], OldObject = [1]\<rparr>
     = (Allowed ''Request is allowed'')\<lparr>ResponseUID := ''u-8''\<rparr>"
proof -
  let ?dec = "tableDecoder [([1], \<lparr>Name = ''restricted'', Priority = None\<rparr>),
                            ([2], \<lparr>Name = ''restricted'', Priority = Some 99\<rparr>)]"
  let ?req = "\<lparr>UID = ''u-8'', Kind = ''SecurityContextConstraints'', Operation = Connect,
        Username = ''alice'', Object = [2], OldObject = [1]\<rparr>"
  have c: "Operation ?req \<noteq> Create" and u: "Operation ?req \<noteq> Update"
    and d: "Operation ?req \<noteq> Delete"
    by (simp_all add: Connect_def Create_def Update_def Delete_def)
  have r: "renderSCC (Inr ?dec) ?req
     = Inr (\<lparr>Name = ''restricted'', Priority = None\<rparr>, \<lparr>Name = ''restricted'', Priority = Some 99\<rparr>)"
    by (simp add: renderSCC_def tableDecoder_def)
  show ?thesis
    using c u d r other_operations_allowed [OF c u d r] by simp
qed

text \<open>
  C9: \<open>Doc\<close> is the documentation text with the slice \<open>defaultSCCs\<close> in the place of
  its verb, the same slice \<open>isDefaultSCC\<close> ranges over: the names the text lists are
  those of \<open>defaultSCCs\<close>, in the same order, and \<open>isDefaultSCC\<close> holds of an SCC if
  and only if its name is one of the names listed.
\<close>

theorem Doc_lists_defaultSCCs:
  "Doc = docString (fmt_s defaultSCCs)
   \<and> Doc = ''Managed OpenShift Customers may not modify the following default SCCs: [anyuid hostaccess hostmount-anyuid hostnetwork node-exporter nonroot privileged restricted pipelines-scc]''
   \<and> listed_names Doc = defaultSCCs
   \<and> (\<forall>scc. isDefaultSCC scc \<longleftrightarrow> Name scc \<in> set (listed_names Doc))"
proof -
  have t: "Doc = ''Managed OpenShift Customers may not modify the following default SCCs: [anyuid hostaccess hostmount-anyuid hostnetwork node-exporter nonroot privileged restricted pipelines-scc]''"
    by (simp add: Doc_def docString_def fmt_s_def defaultSCCs_def)
  have l: "listed_names Doc = defaultSCCs"
    unfolding t by (simp add: listed_names_def defaultSCCs_def)
  show ?thesis
    using t l by (simp add: isDefaultSCC_iff Doc_def [symmetric])
qed

text \<open>
  C10: two requests with the same UID, operation and payloads get the same response from
  \<open>authorized\<close>, whatever their user names are. The instance is a pair of requests
  that differ in the user name only, one of them empty: the responses are equal, while
  \<open>Validate\<close> holds of one and not of the other.
\<close>

theorem authorized_ignores_username:
  assumes "UID r1 = UID r2" and "Operation r1 = Operation r2"
    and "Object r1 = Object r2" and "OldObject r1 = OldObject r2"
  shows "authorized NewDecoder r1 = authorized NewDecoder r2"
proof -
  have "renderSCC NewDecoder r1 = renderSCC NewDecoder r2"
    using assms(3,4) by (rule renderSCC_payloads)
  then show ?thesis
    using assms(1,2) by (simp add: authorized_def split: sum.splits prod.splits)
qed

theorem authorized_ignores_username_witness:
  "authorized (Inr (tableDecoder [([2], \<lparr>Name = ''custom'', Priority = Some 15\<rparr>)]))
       \<lparr>UID = ''u-10'', Kind = ''SecurityContextConstraint'', Operation = ''CREATE'',
        Username = ''alice'', Object = [2], OldObject = []\<rparr>
     = authorized (Inr (tableDecoder [([2], \<lparr>Name = ''custom'', Priority = Some 15\<rparr>)]))
       \<lparr>UID = ''u-10'', Kind = ''SecurityContextConstraint'', Operation = ''CREATE'',
        Username = [], Object = [2], OldObject = []\<rparr>
   \<and> Validate \<lparr>UID = ''u-10'', Kind = ''SecurityContextConstraint'', Operation = ''CREATE'',
        Username = ''alice'', Object = [2], OldObject = []\<rparr>
   \<and> \<not> Validate \<lparr>UID = ''u-10'', Kind = ''SecurityContextConstraint'', Operation = ''CREATE'',
        Username = [], Object = [2], OldObject = []\<rparr>"
  using authorized_ignores_username
     [of "\<lparr>UID = ''u-10'', Kind = ''SecurityContextConstraint'', Operation = ''CREATE'',
        Username = ''alice'', Object = [2], OldObject = []\<rparr>"
         "\<lparr>UID = ''u-10'', Kind = ''SecurityContextConstraint'', Operation = ''CREATE'',
        Username = [], Object = [2], OldObject = []\<rparr>"
         "Inr (tableDecoder [([2], \<lparr>Name = ''custom'', Priority = Some 15\<rparr>)])"]
  by (simp add: Validate_def)

end
